theory Spec2Isabelle
  imports Main "HOL-Library.Char_ord" "HOL-Library.List_Lexorder"
begin

section \<open>Channel identifiers\<close>

text \<open>
  A JavaScript string is modelled as a \<^typ>\<open>string\<close>, one \<^typ>\<open>char\<close> per code unit
  (code units 0 to 255). The default comparison of \<^verbatim>\<open>Array.prototype.sort\<close> orders
  strings by their code units, a proper prefix before its extensions: this is the
  lexicographic order on \<^typ>\<open>char list\<close>.

  \<^verbatim>\<open>arr.join(sep)\<close> concatenates the elements with the separator between them.
\<close>

fun join :: "string \<Rightarrow> string list \<Rightarrow> string" where
  "join sep [] = []"
| "join sep [x] = x"
| "join sep (x # y # ys) = x @ sep @ join sep (y # ys)"

text \<open>
  \<^verbatim>\<open>const chatRoom = [senderId, recipientId].sort().join('-');\<close>
  (the handlers join-chat, send-message, typing-start and typing-stop all compute it so).
\<close>

definition chatRoom :: "string \<Rightarrow> string \<Rightarrow> string" where
  "chatRoom senderId recipientId = join ''-'' (sort [senderId, recipientId])"

section \<open>Documents and collections\<close>

text \<open>
  \<^verbatim>\<open>models/Friendship.js\<close>: requester, recipient, status (enum, default pending),
  createdAt, updatedAt. \<open>fid\<close> is the document's \<^verbatim>\<open>_id\<close>. Object ids generated by the
  driver are modelled as natural numbers drawn from a counter; user ids, which the
  clients send as strings and which name rooms, are strings.
\<close>

datatype friendship_status = Pending | Accepted | Declined | Blocked

record friendship =
  fid :: nat
  requester :: string
  frecipient :: string
  status :: friendship_status
  fcreatedAt :: nat
  updatedAt :: nat

text \<open>
  \<^verbatim>\<open>models/Message.js\<close>: sender, recipient, content (required, trimmed), messageType
  (enum, default text), optional file metadata, isRead (default false), readAt, createdAt.
\<close>

datatype message_type = Text | Image | Video | Audio | File

record message =
  mid :: nat
  sender :: string
  recipient :: string
  content :: string
  messageType :: message_type
  filePath :: "string option"
  fileSize :: "nat option"
  fileName :: "string option"
  isRead :: bool
  readAt :: "nat option"
  createdAt :: nat

text \<open>
  Modelled from the spec: the User model (\<^verbatim>\<open>models/User.js\<close>) is not among the sources.
  The spec's data model gives a user a unique id, a display name, an online flag, a
  last-seen timestamp and a nullable connection handle; these are the fields the
  handlers below read and write (\<^verbatim>\<open>username\<close>, \<^verbatim>\<open>isOnline\<close>, \<^verbatim>\<open>lastSeen\<close>, \<^verbatim>\<open>socketId\<close>).
\<close>

record user =
  uid :: string
  username :: string
  isOnline :: bool
  lastSeen :: nat
  socketId :: "string option"

record db =
  users :: "user list"
  friendships :: "friendship list"
  messages :: "message list"
  next_oid :: nat

section \<open>Environment of a handler\<close>

text \<open>
  Every \<^verbatim>\<open>await\<close> on a database call may reject (connection loss, a cast error, ...); the
  handler's \<^verbatim>\<open>try/catch\<close> decides what happens then. Which calls reject is a parameter,
  as are the values that successive \<^verbatim>\<open>new Date()\<close> / \<^verbatim>\<open>Date.now()\<close> reads return
  (\<open>clock e k\<close> is the \<open>k\<close>-th read of the handler, counted from zero).
\<close>

datatype db_call =
    User_findById | User_findByIdAndUpdate
  | Friendship_findOne | Friendship_save | Friendship_populate | Friendship_findByIdAndDelete
  | Message_save | Message_populate | Message_updateMany

record env =
  clock :: "nat \<Rightarrow> nat"
  rejects :: "db_call \<Rightarrow> bool"

section \<open>Socket effects\<close>

text \<open>
  \<^verbatim>\<open>socket.emit\<close> reaches the originating connection only; \<^verbatim>\<open>io.to(room).emit\<close> every
  connection joined to the room; \<^verbatim>\<open>socket.to(room).emit\<close> those except the originating
  one; \<^verbatim>\<open>socket.broadcast.emit\<close> every connection except the originating one.
\<close>

datatype target = Socket | IoTo string | SocketTo string | SocketBroadcast

text \<open>
  The events the handlers emit. \<open>NewMessage m s r\<close> is the saved message with its
  sender and recipient populated (\<open>s\<close>, \<open>r\<close>: the user names, \<open>None\<close> when the user
  document does not exist); \<open>MessageDelivered messageId timestamp\<close>;
  \<open>MessagesRead recipientId readAt\<close>; \<open>UserStatusUpdate userId isOnline lastSeen\<close>;
  \<open>UserTyping userId isTyping\<close>.
\<close>

datatype event =
    MessageError string
  | NewMessage message "string option" "string option"
  | MessageDelivered nat nat
  | MessagesRead string nat
  | UserStatusUpdate string bool nat
  | UserTyping string bool

text \<open>
  What a handler does that is visible outside it, in program order: emissions,
  room subscriptions (\<^verbatim>\<open>socket.join\<close>), and the point at which a message document
  was written by \<^verbatim>\<open>message.save()\<close>.
\<close>

datatype effect = Saved message | Emit target event | Join string

section \<open>Friendship graph\<close>

text \<open>
  \<^verbatim>\<open>FriendshipSchema.statics.areFriends\<close>: \<^verbatim>\<open>findOne\<close> with an \<^verbatim>\<open>$or\<close> of the two
  orientations, both with status accepted; the result is \<^verbatim>\<open>!!friendship\<close>.
\<close>

definition areFriends :: "friendship list \<Rightarrow> string \<Rightarrow> string \<Rightarrow> bool" where
  "areFriends fs userId1 userId2 =
     (find (\<lambda>f. (requester f = userId1 \<and> frecipient f = userId2 \<and> status f = Accepted)
               \<or> (requester f = userId2 \<and> frecipient f = userId1 \<and> status f = Accepted)) fs
      \<noteq> None)"

section \<open>Message store\<close>

text \<open>
  \<^verbatim>\<open>String.prototype.trim\<close> removes white space and line terminators from both ends;
  among the code units 0 to 255 these are TAB, LF, VT, FF, CR, SPACE and NBSP.
\<close>

definition is_js_whitespace :: "char \<Rightarrow> bool" where
  "is_js_whitespace c =
     (c \<in> set [CHR 0x09, CHR 0x0A, CHR 0x0B, CHR 0x0C, CHR 0x0D, CHR 0x20, CHR 0xA0])"

definition trim :: "string \<Rightarrow> string" where
  "trim s = rev (dropWhile is_js_whitespace (rev (dropWhile is_js_whitespace s)))"

text \<open>
  \<^verbatim>\<open>new Message({sender, recipient, content, messageType})\<close>: the schema's setters and
  defaults apply (content is trimmed, isRead is false, readAt and the file metadata are
  absent, createdAt is \<^verbatim>\<open>Date.now\<close>); the document gets a fresh \<^verbatim>\<open>_id\<close>.
\<close>

definition new_Message :: "nat \<Rightarrow> nat \<Rightarrow> string \<Rightarrow> string \<Rightarrow> string \<Rightarrow> message_type \<Rightarrow> message" where
  "new_Message oid now s r c t =
     \<lparr>mid = oid, sender = s, recipient = r, content = trim c, messageType = t,
      filePath = None, fileSize = None, fileName = None,
      isRead = False, readAt = None, createdAt = now\<rparr>"

text \<open>
  Validation on save: \<^verbatim>\<open>content\<close> is \<^verbatim>\<open>required: true\<close>, and the required validator
  of a string path fails on the empty string.
\<close>

definition validate_message :: "message \<Rightarrow> bool" where
  "validate_message m = (content m \<noteq> [])"

text \<open>\<^verbatim>\<open>message.save()\<close>: \<open>None\<close> when the promise rejects, else the store with the document inserted.\<close>

definition save_message :: "env \<Rightarrow> message \<Rightarrow> db \<Rightarrow> db option" where
  "save_message e m st =
     (if \<not> validate_message m \<or> rejects e Message_save then None
      else Some (st\<lparr>messages := messages st @ [m], next_oid := Suc (next_oid st)\<rparr>))"

text \<open>\<^verbatim>\<open>populate(path, 'username')\<close>: the referenced user's name, null when there is no such user.\<close>

definition populate_username :: "user list \<Rightarrow> string \<Rightarrow> string option" where
  "populate_username us i = map_option username (find (\<lambda>u. uid u = i) us)"

text \<open>
  \<^verbatim>\<open>Message.updateMany({sender, recipient, isRead: false}, {isRead: true, readAt})\<close>.
\<close>

definition updateMany_read :: "string \<Rightarrow> string \<Rightarrow> nat \<Rightarrow> message list \<Rightarrow> message list" where
  "updateMany_read senderId recipientId now ms =
     map (\<lambda>m. if sender m = senderId \<and> recipient m = recipientId \<and> isRead m = False
              then m\<lparr>isRead := True, readAt := Some now\<rparr> else m) ms"

section \<open>Presence registry\<close>

text \<open>\<^verbatim>\<open>User.findByIdAndUpdate(id, update)\<close>: the first document with that id is updated, if any.\<close>

fun findByIdAndUpdate :: "string \<Rightarrow> (user \<Rightarrow> user) \<Rightarrow> user list \<Rightarrow> user list" where
  "findByIdAndUpdate i f [] = []"
| "findByIdAndUpdate i f (u # us) =
     (if uid u = i then f u # us else u # findByIdAndUpdate i f us)"

definition findById :: "string \<Rightarrow> user list \<Rightarrow> user option" where
  "findById i us = find (\<lambda>u. uid u = i) us"

section \<open>Realtime session controller\<close>

text \<open>
  The state of one connection: the closure variable \<^verbatim>\<open>currentUser\<close> of
  \<^verbatim>\<open>io.on('connection', ...)\<close>, \<^verbatim>\<open>null\<close> until user-connected binds
  \<^verbatim>\<open>{userId, username}\<close>, and the socket's id.
\<close>

record connection =
  socket_id :: string
  currentUser :: "(string \<times> string) option"

definition new_connection :: "string \<Rightarrow> connection" where
  "new_connection sid = \<lparr>socket_id = sid, currentUser = None\<rparr>"

text \<open>
  A handler body runs inside \<^verbatim>\<open>try\<close>: it yields the store, the effects so far, and
  whether an exception was thrown (\<open>True\<close>) or the body ended normally.
\<close>

type_synonym outcome = "(db \<times> effect list) \<times> bool"

subsection \<open>user-connected and join-chat\<close>

text \<open>
  The payload of user-connected is \<^verbatim>\<open>{userId, username}\<close>; destructuring a missing
  payload throws before \<^verbatim>\<open>currentUser\<close> is assigned. The identity is bound before the
  first \<^verbatim>\<open>await\<close>.
\<close>

definition user_connected_handler ::
  "env \<Rightarrow> connection \<Rightarrow> (string \<times> string) option \<Rightarrow> db \<Rightarrow> connection \<times> db \<times> effect list" where
  "user_connected_handler e c data st =
     (case data of
        None \<Rightarrow> (c, st, [])
      | Some (userId, uname) \<Rightarrow>
          let c' = c\<lparr>currentUser := Some (userId, uname)\<rparr> in
          if rejects e User_findByIdAndUpdate then (c', st, [])
          else
            (c',
             st\<lparr>users := findByIdAndUpdate userId
                    (\<lambda>u. u\<lparr>isOnline := True, lastSeen := clock e 0, socketId := Some (socket_id c)\<rparr>)
                    (users st)\<rparr>,
             [Join userId, Emit SocketBroadcast (UserStatusUpdate userId True (clock e 1))]))"

definition join_chat_handler :: "string \<times> string \<Rightarrow> effect list" where
  "join_chat_handler data = (case data of (senderId, recipientId) \<Rightarrow> [Join (chatRoom senderId recipientId)])"

subsection \<open>send-message\<close>

text \<open>
  The payload is \<^verbatim>\<open>{senderId, recipientId, content}\<close>; a field may be missing (\<open>None\<close>).
  \<^verbatim>\<open>!x\<close> holds of a missing field and of the empty string; destructuring a missing
  payload throws.
\<close>

record send_data =
  data_senderId :: "string option"
  data_recipientId :: "string option"
  data_content :: "string option"

definition send_message_body :: "env \<Rightarrow> send_data option \<Rightarrow> db \<Rightarrow> outcome" where
  "send_message_body e data st =
     (case data of
        None \<Rightarrow> ((st, []), True)
      | Some d \<Rightarrow>
          (case (data_senderId d, data_recipientId d, data_content d) of
             (Some s, Some r, Some c) \<Rightarrow>
               if s = [] \<or> r = [] \<or> c = []
               then ((st, [Emit Socket (MessageError ''Missing required fields'')]), False)
               else if rejects e Friendship_findOne then ((st, []), True)
               else if \<not> areFriends (friendships st) s r
               then ((st, [Emit Socket (MessageError ''You can only message friends'')]), False)
               else
                 let m = new_Message (next_oid st) (clock e 0) s r (trim c) Text in
                 (case save_message e m st of
                    None \<Rightarrow> ((st, []), True)
                  | Some st' \<Rightarrow>
                      if rejects e Message_populate then ((st', [Saved m]), True)
                      else
                        ((st',
                          [Saved m,
                           Emit (IoTo (chatRoom s r))
                             (NewMessage m (populate_username (users st') s)
                                (populate_username (users st') r)),
                           Emit (SocketTo r)
                             (NewMessage m (populate_username (users st') s)
                                (populate_username (users st') r)),
                           Emit Socket (MessageDelivered (mid m) (createdAt m))]),
                         False))
           | _ \<Rightarrow> ((st, [Emit Socket (MessageError ''Missing required fields'')]), False)))"

text \<open>
  \<^verbatim>\<open>catch (error) { ...; socket.emit('message-error', { error: 'Failed to send message' }); }\<close>
\<close>

definition send_message_handler :: "env \<Rightarrow> send_data option \<Rightarrow> db \<Rightarrow> db \<times> effect list" where
  "send_message_handler e data st =
     (case send_message_body e data st of
        ((st', effs), threw) \<Rightarrow>
          if threw then (st', effs @ [Emit Socket (MessageError ''Failed to send message'')])
          else (st', effs))"

subsection \<open>mark-messages-read\<close>

text \<open>
  The payload \<^verbatim>\<open>{senderId, recipientId}\<close> carries two user ids. The \<^verbatim>\<open>catch\<close> clause
  only logs.
\<close>

definition mark_messages_read_handler :: "env \<Rightarrow> string \<times> string \<Rightarrow> db \<Rightarrow> db \<times> effect list" where
  "mark_messages_read_handler e data st =
     (case data of (sId, rId) \<Rightarrow>
        if rejects e Message_updateMany then (st, [])
        else
          let st' = st\<lparr>messages := updateMany_read sId rId (clock e 0) (messages st)\<rparr> in
          if rejects e User_findById then (st', [])
          else
            (case findById sId (users st') of
               None \<Rightarrow> (st', [])
             | Some senderUser \<Rightarrow>
                 (case socketId senderUser of
                    None \<Rightarrow> (st', [])
                  | Some sock \<Rightarrow>
                      if sock = [] then (st', [])
                      else (st', [Emit (IoTo sock) (MessagesRead rId (clock e 1))]))))"

subsection \<open>Typing indicators\<close>

definition typing_handler :: "bool \<Rightarrow> string \<times> string \<Rightarrow> effect list" where
  "typing_handler isTyping data =
     (case data of (sId, rId) \<Rightarrow> [Emit (SocketTo (chatRoom sId rId)) (UserTyping sId isTyping)])"

subsection \<open>Activity and disconnection\<close>

definition user_active_handler :: "env \<Rightarrow> string \<Rightarrow> db \<Rightarrow> db \<times> effect list" where
  "user_active_handler e userId st =
     (if rejects e User_findByIdAndUpdate then (st, [])
      else
        (st\<lparr>users := findByIdAndUpdate userId
               (\<lambda>u. u\<lparr>isOnline := True, lastSeen := clock e 0\<rparr>) (users st)\<rparr>,
         [Emit SocketBroadcast (UserStatusUpdate userId True (clock e 1))]))"

definition user_inactive_handler :: "env \<Rightarrow> string \<Rightarrow> db \<Rightarrow> db \<times> effect list" where
  "user_inactive_handler e userId st =
     (if rejects e User_findByIdAndUpdate then (st, [])
      else
        (st\<lparr>users := findByIdAndUpdate userId
               (\<lambda>u. u\<lparr>lastSeen := clock e 0\<rparr>) (users st)\<rparr>,
         [Emit SocketBroadcast (UserStatusUpdate userId False (clock e 1))]))"

text \<open>
  \<^verbatim>\<open>socket.on('user-disconnected', async (userId) => { try { if (userId) { ... } } ... })\<close>:
  \<^verbatim>\<open>findByIdAndUpdate(userId, {isOnline: false, lastSeen: new Date(), socketId: null})\<close>,
  then the broadcast. The argument may be missing (\<open>None\<close>).
\<close>

definition user_disconnected_handler ::
  "env \<Rightarrow> connection \<Rightarrow> string option \<Rightarrow> db \<Rightarrow> db \<times> effect list" where
  "user_disconnected_handler e c userId st =
     (case userId of
        None \<Rightarrow> (st, [])
      | Some i \<Rightarrow>
          if i = [] then (st, [])
          else if rejects e User_findByIdAndUpdate then (st, [])
          else
            (st\<lparr>users := findByIdAndUpdate i
                   (\<lambda>u. u\<lparr>isOnline := False, lastSeen := clock e 0, socketId := None\<rparr>)
                   (users st)\<rparr>,
             [Emit SocketBroadcast (UserStatusUpdate i False (clock e 1))]))"

text \<open>
  \<^verbatim>\<open>socket.on('disconnect', async () => { try { if (currentUser && currentUser.userId) { ... } } ... })\<close>,
  with \<^verbatim>\<open>currentUser.userId\<close> in the place of the argument.
\<close>

definition disconnect_handler :: "env \<Rightarrow> connection \<Rightarrow> db \<Rightarrow> db \<times> effect list" where
  "disconnect_handler e c st =
     (case currentUser c of
        None \<Rightarrow> (st, [])
      | Some (userId, uname) \<Rightarrow>
          if userId = [] then (st, [])
          else if rejects e User_findByIdAndUpdate then (st, [])
          else
            (st\<lparr>users := findByIdAndUpdate userId
                   (\<lambda>u. u\<lparr>isOnline := False, lastSeen := clock e 0, socketId := None\<rparr>)
                   (users st)\<rparr>,
             [Emit SocketBroadcast (UserStatusUpdate userId False (clock e 1))]))"

section \<open>Friendship routes\<close>

text \<open>An HTTP response: the status code and the \<^verbatim>\<open>error\<close> or \<^verbatim>\<open>message\<close> text (or the redirect target).\<close>

datatype response = Response nat string

text \<open>
  \<^verbatim>\<open>function isLoggedIn(req, res, next) { if (req.session.userId) next(); else res.redirect('/login'); }\<close>
\<close>

definition isLoggedIn :: "string option \<Rightarrow> (string \<Rightarrow> db \<Rightarrow> db \<times> response) \<Rightarrow> db \<Rightarrow> db \<times> response" where
  "isLoggedIn session_userId route st =
     (case session_userId of
        None \<Rightarrow> (st, Response 302 ''/login'')
      | Some i \<Rightarrow> if i = [] then (st, Response 302 ''/login'') else route i st)"

text \<open>
  \<^verbatim>\<open>Friendship.findOne({ $or: [{requester: a, recipient: b}, {requester: b, recipient: a}] })\<close>
\<close>

definition findOne_between :: "friendship list \<Rightarrow> string \<Rightarrow> string \<Rightarrow> friendship option" where
  "findOne_between fs a b =
     find (\<lambda>f. (requester f = a \<and> frecipient f = b) \<or> (requester f = b \<and> frecipient f = a)) fs"

text \<open>
  Saving a new friendship: the compound index \<^verbatim>\<open>{requester: 1, recipient: 1}\<close> is unique, so
  the insert rejects when an edge with the same requester and the same recipient is stored.
\<close>

definition insert_friendship :: "env \<Rightarrow> friendship \<Rightarrow> db \<Rightarrow> db option" where
  "insert_friendship e f st =
     (if rejects e Friendship_save
         \<or> list_ex (\<lambda>g. requester g = requester f \<and> frecipient g = frecipient f) (friendships st)
      then None
      else Some (st\<lparr>friendships := friendships st @ [f], next_oid := Suc (next_oid st)\<rparr>))"

text \<open>Writing to, and deleting, the document with a given \<^verbatim>\<open>_id\<close> (the first one, if any).\<close>

fun updateById :: "nat \<Rightarrow> (friendship \<Rightarrow> friendship) \<Rightarrow> friendship list \<Rightarrow> friendship list" where
  "updateById i g [] = []"
| "updateById i g (f # fs) = (if fid f = i then g f # fs else f # updateById i g fs)"

fun deleteById :: "nat \<Rightarrow> friendship list \<Rightarrow> friendship list" where
  "deleteById i [] = []"
| "deleteById i (f # fs) = (if fid f = i then fs else f # deleteById i fs)"

text \<open>
  The tail of \<^verbatim>\<open>POST /api/friends/request\<close>: \<^verbatim>\<open>new Friendship({requester, recipient, status: 'pending'})\<close>
  (createdAt and updatedAt default to \<^verbatim>\<open>Date.now\<close>), \<^verbatim>\<open>save()\<close> (the pre-save hook sets
  updatedAt again), the two \<^verbatim>\<open>populate\<close> calls, the response.
\<close>

definition create_friend_request :: "env \<Rightarrow> string \<Rightarrow> string \<Rightarrow> db \<Rightarrow> db \<times> response" where
  "create_friend_request e requesterId r st =
     (let f = \<lparr>fid = next_oid st, requester = requesterId, frecipient = r, status = Pending,
               fcreatedAt = clock e 0, updatedAt = clock e 2\<rparr>
      in case insert_friendship e f st of
           None \<Rightarrow> (st, Response 500 ''Server error'')
         | Some st' \<Rightarrow>
             if rejects e Friendship_populate then (st', Response 500 ''Server error'')
             else (st', Response 200 ''Friend request sent successfully''))"

text \<open>\<^verbatim>\<open>router.post('/api/friends/request', isLoggedIn, ...)\<close>, after the middleware.\<close>

definition send_friend_request :: "env \<Rightarrow> string option \<Rightarrow> string \<Rightarrow> db \<Rightarrow> db \<times> response" where
  "send_friend_request e recipientId requesterId st =
     (case recipientId of
        None \<Rightarrow> (st, Response 400 ''Recipient ID required'')
      | Some r \<Rightarrow>
          if r = [] then (st, Response 400 ''Recipient ID required'')
          else if requesterId = r then (st, Response 400 ''Cannot send friend request to yourself'')
          else if rejects e User_findById then (st, Response 500 ''Server error'')
          else if findById r (users st) = None then (st, Response 404 ''User not found'')
          else if rejects e Friendship_findOne then (st, Response 500 ''Server error'')
          else
            (case findOne_between (friendships st) requesterId r of
               None \<Rightarrow> create_friend_request e requesterId r st
             | Some existingFriendship \<Rightarrow>
                 if status existingFriendship = Accepted
                 then (st, Response 400 ''You are already friends'')
                 else if status existingFriendship = Pending
                 then (st, Response 400 ''Friend request already sent'')
                 else create_friend_request e requesterId r st))"

text \<open>
  \<^verbatim>\<open>Friendship.findOne({ _id: friendshipId, recipient: currentUserId, status: 'pending' })\<close>,
  shared by accept and decline.
\<close>

definition findOne_pending :: "friendship list \<Rightarrow> nat \<Rightarrow> string \<Rightarrow> friendship option" where
  "findOne_pending fs friendshipId currentUserId =
     find (\<lambda>f. fid f = friendshipId \<and> frecipient f = currentUserId \<and> status f = Pending) fs"

text \<open>\<^verbatim>\<open>router.post('/api/friends/accept', isLoggedIn, ...)\<close>\<close>

definition accept_friend_request :: "env \<Rightarrow> nat option \<Rightarrow> string \<Rightarrow> db \<Rightarrow> db \<times> response" where
  "accept_friend_request e friendshipId currentUserId st =
     (case friendshipId of
        None \<Rightarrow> (st, Response 400 ''Friendship ID required'')
      | Some i \<Rightarrow>
          if rejects e Friendship_findOne then (st, Response 500 ''Server error'')
          else
            (case findOne_pending (friendships st) i currentUserId of
               None \<Rightarrow> (st, Response 404 ''Friend request not found'')
             | Some f \<Rightarrow>
                 if rejects e Friendship_save then (st, Response 500 ''Server error'')
                 else
                   let st' = st\<lparr>friendships := updateById (fid f)
                                  (\<lambda>g. g\<lparr>status := Accepted, updatedAt := clock e 0\<rparr>)
                                  (friendships st)\<rparr>
                   in if rejects e Friendship_populate then (st', Response 500 ''Server error'')
                      else (st', Response 200 ''Friend request accepted'')))"

text \<open>\<^verbatim>\<open>router.post('/api/friends/decline', isLoggedIn, ...)\<close>\<close>

definition decline_friend_request :: "env \<Rightarrow> nat option \<Rightarrow> string \<Rightarrow> db \<Rightarrow> db \<times> response" where
  "decline_friend_request e friendshipId currentUserId st =
     (case friendshipId of
        None \<Rightarrow> (st, Response 400 ''Friendship ID required'')
      | Some i \<Rightarrow>
          if rejects e Friendship_findOne then (st, Response 500 ''Server error'')
          else
            (case findOne_pending (friendships st) i currentUserId of
               None \<Rightarrow> (st, Response 404 ''Friend request not found'')
             | Some f \<Rightarrow>
                 if rejects e Friendship_findByIdAndDelete then (st, Response 500 ''Server error'')
                 else (st\<lparr>friendships := deleteById i (friendships st)\<rparr>,
                       Response 200 ''Friend request declined'')))"

text \<open>
  \<^verbatim>\<open>router.post('/api/friends/remove', isLoggedIn, ...)\<close>: the lookup is the one of
  \<^verbatim>\<open>areFriends\<close>, with the document kept.
\<close>

definition remove_friend :: "env \<Rightarrow> string option \<Rightarrow> string \<Rightarrow> db \<Rightarrow> db \<times> response" where
  "remove_friend e friendId currentUserId st =
     (case friendId of
        None \<Rightarrow> (st, Response 400 ''Friend ID required'')
      | Some fr \<Rightarrow>
          if fr = [] then (st, Response 400 ''Friend ID required'')
          else if rejects e Friendship_findOne then (st, Response 500 ''Server error'')
          else
            (case find (\<lambda>f. (requester f = currentUserId \<and> frecipient f = fr \<and> status f = Accepted)
                          \<or> (requester f = fr \<and> frecipient f = currentUserId \<and> status f = Accepted))
                    (friendships st) of
               None \<Rightarrow> (st, Response 404 ''Friendship not found'')
             | Some f \<Rightarrow>
                 if rejects e Friendship_findByIdAndDelete then (st, Response 500 ''Server error'')
                 else (st\<lparr>friendships := deleteById (fid f) (friendships st)\<rparr>,
                       Response 200 ''Friend removed successfully'')))"

text \<open>
  A request to one of the four routes: the session's user id, the id in the body, and
  the environment the route runs in.
\<close>

datatype friend_request =
    Request env "string option" "string option"
  | Accept env "string option" "nat option"
  | Decline env "string option" "nat option"
  | Remove env "string option" "string option"

fun serve :: "friend_request \<Rightarrow> db \<Rightarrow> db \<times> response" where
  "serve (Request e session_userId recipientId) st =
     isLoggedIn session_userId (send_friend_request e recipientId) st"
| "serve (Accept e session_userId friendshipId) st =
     isLoggedIn session_userId (accept_friend_request e friendshipId) st"
| "serve (Decline e session_userId friendshipId) st =
     isLoggedIn session_userId (decline_friend_request e friendshipId) st"
| "serve (Remove e session_userId friendId) st =
     isLoggedIn session_userId (remove_friend e friendId) st"

text \<open>Requests served one after the other.\<close>

fun serve_all :: "friend_request list \<Rightarrow> db \<Rightarrow> db" where
  "serve_all [] st = st"
| "serve_all (q # qs) st = serve_all qs (fst (serve q st))"

section \<open>Predicates of the claims\<close>

text \<open>The two users an edge connects, as an unordered pair.\<close>

definition pair_of :: "friendship \<Rightarrow> string set" where
  "pair_of f = {requester f, frecipient f}"

definition one_edge_per_pair :: "friendship list \<Rightarrow> bool" where
  "one_edge_per_pair fs = distinct (map pair_of fs)"

text \<open>
  The statuses the four routes produce: a request is stored as pending, accepting makes it
  accepted, declining and removing delete the edge.
\<close>

definition pending_or_accepted :: "friendship list \<Rightarrow> bool" where
  "pending_or_accepted fs = list_all (\<lambda>f. status f = Pending \<or> status f = Accepted) fs"

text \<open>The invariant of the friendship collection that the routes preserve.\<close>

definition store_inv :: "friendship list \<Rightarrow> bool" where
  "store_inv fs = (one_edge_per_pair fs \<and> pending_or_accepted fs)"

text \<open>
  The terminal outcomes of send-message: a \<^verbatim>\<open>message-delivered\<close> or a \<^verbatim>\<open>message-error\<close>
  event emitted with \<^verbatim>\<open>socket.emit\<close>, that is, to the originating connection.
\<close>

definition terminal_outcome :: "effect \<Rightarrow> bool" where
  "terminal_outcome x =
     (case x of
        Emit Socket (MessageError err) \<Rightarrow> True
      | Emit Socket (MessageDelivered i t) \<Rightarrow> True
      | _ \<Rightarrow> False)"

section \<open>Sample data\<close>

definition env_ok :: env where
  "env_ok = \<lparr>clock = (\<lambda>k. 1000 + k), rejects = (\<lambda>c. False)\<rparr>"

definition alice :: user where
  "alice = \<lparr>uid = ''a1'', username = ''alice'', isOnline = True, lastSeen = 10, socketId = Some ''s1''\<rparr>"

definition bob :: user where
  "bob = \<lparr>uid = ''b2'', username = ''bob'', isOnline = False, lastSeen = 20, socketId = None\<rparr>"

definition db_strangers :: db where
  "db_strangers = \<lparr>users = [alice, bob], friendships = [], messages = [], next_oid = 0\<rparr>"

definition db_friends :: db where
  "db_friends =
     \<lparr>users = [alice, bob],
      friendships = [\<lparr>fid = 0, requester = ''a1'', frecipient = ''b2'', status = Accepted,
                      fcreatedAt = 1, updatedAt = 2\<rparr>],
      messages = [], next_oid = 1\<rparr>"

definition db_chat :: db where
  "db_chat =
     \<lparr>users = [alice, bob],
      friendships = [\<lparr>fid = 0, requester = ''a1'', frecipient = ''b2'', status = Accepted,
                      fcreatedAt = 1, updatedAt = 2\<rparr>],
      messages =
        [\<lparr>mid = 1, sender = ''a1'', recipient = ''b2'', content = ''hi'', messageType = Text,
          filePath = None, fileSize = None, fileName = None,
          isRead = False, readAt = None, createdAt = 3\<rparr>,
         \<lparr>mid = 2, sender = ''b2'', recipient = ''a1'', content = ''yo'', messageType = Text,
          filePath = None, fileSize = None, fileName = None,
          isRead = False, readAt = None, createdAt = 4\<rparr>,
         \<lparr>mid = 3, sender = ''a1'', recipient = ''b2'', content = ''old'', messageType = Text,
          filePath = None, fileSize = None, fileName = None,
          isRead = True, readAt = Some 5, createdAt = 2\<rparr>],
      next_oid = 4\<rparr>"

definition hello :: send_data where
  "hello = \<lparr>data_senderId = Some ''a1'', data_recipientId = Some ''b2'', data_content = Some '' hello ''\<rparr>"

definition blank :: send_data where
  "blank = \<lparr>data_senderId = Some ''a1'', data_recipientId = Some ''b2'', data_content = Some '' ''\<rparr>"

definition empty_content :: send_data where
  "empty_content = \<lparr>data_senderId = Some ''a1'', data_recipientId = Some ''b2'', data_content = Some ''''\<rparr>"

definition friend_session :: "friend_request list" where
  "friend_session =
     [Request env_ok (Some ''a1'') (Some ''b2''),
      Request env_ok (Some ''b2'') (Some ''a1''),
      Accept env_ok (Some ''b2'') (Some 0),
      Request env_ok (Some ''b2'') (Some ''a1''),
      Remove env_ok (Some ''a1'') (Some ''b2''),
      Request env_ok (Some ''b2'') (Some ''a1'')]"

section \<open>Auxiliary facts\<close>

subsection \<open>Channel identifier\<close>

lemma chatRoom_unfold:
  "chatRoom a b = (if a \<le> b then a @ CHR ''-'' # b else b @ CHR ''-'' # a)"
  by (simp add: chatRoom_def)

lemma chatRoom_min_max: "chatRoom a b = min a b @ CHR ''-'' # max a b"
  by (simp add: chatRoom_unfold min_def max_def)

lemma min_max_pair: "{min a b, max a b} = {a, (b::'a::linorder)}"
  by (auto simp: min_def max_def)

lemma split_at_separator:
  assumes "c \<notin> set x" and "c \<notin> set x'" and "x @ c # y = x' @ c # y'"
  shows "x = x' \<and> y = y'"
  using assms
proof (induction x arbitrary: x')
  case Nil
  then show ?case by (cases x') auto
next
  case (Cons h t)
  then show ?case by (cases x') auto
qed

subsection \<open>Trimming\<close>

lemma trim_Nil: "trim [] = []"
  by (simp add: trim_def)

lemma trim_idem: "trim (trim s) = trim s"
proof -
  define t where "t = dropWhile is_js_whitespace s"
  define u where "u = rev (dropWhile is_js_whitespace (rev t))"
  define v where "v = rev (takeWhile is_js_whitespace (rev t))"
  have t_head: "t = [] \<or> \<not> is_js_whitespace (hd t)"
    unfolding t_def by (metis hd_dropWhile)
  have "rev (u @ v) = rev t"
    unfolding u_def v_def by simp
  then have split: "t = u @ v"
    by (simp only: rev_is_rev_conv)
  have "u = [] \<or> \<not> is_js_whitespace (hd u)"
  proof (cases u)
    case Nil
    then show ?thesis by simp
  next
    case (Cons a w)
    with split have "t = a # (w @ v)" by simp
    then have "hd t = a" and "t \<noteq> []" by simp_all
    with t_head Cons show ?thesis by simp
  qed
  then have 1: "dropWhile is_js_whitespace u = u"
    by (simp add: dropWhile_eq_self_iff)
  have 2: "dropWhile is_js_whitespace (rev u) = rev u"
    unfolding u_def by simp
  have "trim s = u" by (simp add: trim_def t_def u_def)
  moreover have "trim u = u" by (simp add: trim_def 1 2)
  ultimately show ?thesis by simp
qed

subsection \<open>The success path of send-message\<close>

lemma send_message_success:
  assumes "data_senderId d = Some s" "data_recipientId d = Some r" "data_content d = Some c"
    and "s \<noteq> []" "r \<noteq> []" "trim c \<noteq> []"
    and "areFriends (friendships st) s r"
    and "\<not> rejects e Friendship_findOne" "\<not> rejects e Message_save" "\<not> rejects e Message_populate"
  shows "send_message_handler e (Some d) st =
     (let m = \<lparr>mid = next_oid st, sender = s, recipient = r, content = trim c, messageType = Text,
               filePath = None, fileSize = None, fileName = None,
               isRead = False, readAt = None, createdAt = clock e 0\<rparr>
      in (st\<lparr>messages := messages st @ [m], next_oid := Suc (next_oid st)\<rparr>,
          [Saved m,
           Emit (IoTo (chatRoom s r))
             (NewMessage m (populate_username (users st) s) (populate_username (users st) r)),
           Emit (SocketTo r)
             (NewMessage m (populate_username (users st) s) (populate_username (users st) r)),
           Emit Socket (MessageDelivered (next_oid st) (clock e 0))]))"
proof -
  from assms(6) have "c \<noteq> []" by (auto simp: trim_Nil)
  with assms show ?thesis
    by (simp add: send_message_handler_def send_message_body_def save_message_def
        validate_message_def new_Message_def trim_idem Let_def)
qed

subsection \<open>Updates of the collections\<close>

lemma findById_update:
  assumes "\<And>u. uid (f u) = uid u"
  shows "findById j (findByIdAndUpdate i f us) =
     (if j = i then map_option f (findById i us) else findById j us)"
  using assms by (induction us) (auto simp: findById_def)

lemma map_update_preserved:
  assumes "\<And>u. g (f u) = g u"
  shows "map g (findByIdAndUpdate i f us) = map g us"
  using assms by (induction us) auto

lemma updateMany_read_length: "length (updateMany_read a b t ms) = length ms"
  by (simp add: updateMany_read_def)

lemma updateMany_read_nth:
  "k < length ms \<Longrightarrow> updateMany_read a b t ms ! k =
     (if sender (ms ! k) = a \<and> recipient (ms ! k) = b \<and> \<not> isRead (ms ! k)
      then (ms ! k)\<lparr>isRead := True, readAt := Some t\<rparr> else ms ! k)"
  by (simp add: updateMany_read_def)

lemma mark_messages_read_store:
  "fst (mark_messages_read_handler e (a, b) st) =
     (if rejects e Message_updateMany then st
      else st\<lparr>messages := updateMany_read a b (clock e 0) (messages st)\<rparr>)"
  by (simp add: mark_messages_read_handler_def Let_def split: option.splits)

subsection \<open>The friendship routes keep the store's invariant\<close>

lemma pair_of_eq:
  "pair_of f = {a, b} \<longleftrightarrow>
     (requester f = a \<and> frecipient f = b) \<or> (requester f = b \<and> frecipient f = a)"
  by (auto simp: pair_of_def doubleton_eq_iff)

lemma findOne_between_None:
  assumes "findOne_between fs a b = None"
  shows "{a, b} \<notin> pair_of ` set fs"
proof
  assume "{a, b} \<in> pair_of ` set fs"
  then obtain f where f: "f \<in> set fs" and "pair_of f = {a, b}" by auto
  then have "(requester f = a \<and> frecipient f = b) \<or> (requester f = b \<and> frecipient f = a)"
    by (simp only: pair_of_eq)
  with f assms show False
    by (auto simp: findOne_between_def find_None_iff)
qed

lemma find_Some_mem: "find P xs = Some x \<Longrightarrow> x \<in> set xs \<and> P x"
  by (induction xs) (auto split: if_splits)

lemma map_pair_updateById:
  assumes "\<And>f. requester (g f) = requester f" and "\<And>f. frecipient (g f) = frecipient f"
  shows "map pair_of (updateById i g fs) = map pair_of fs"
  using assms by (induction fs) (auto simp: pair_of_def)

lemma list_all_updateById:
  assumes "list_all P fs" and "\<And>f. P (g f)"
  shows "list_all P (updateById i g fs)"
  using assms by (induction fs) auto

lemma set_deleteById: "set (deleteById i fs) \<subseteq> set fs"
  by (induction fs) auto

lemma distinct_map_deleteById: "distinct (map h fs) \<Longrightarrow> distinct (map h (deleteById i fs))"
proof (induction fs)
  case Nil
  then show ?case by simp
next
  case (Cons f fs)
  moreover have "h ` set (deleteById i fs) \<subseteq> h ` set fs"
    using set_deleteById by (rule image_mono)
  ultimately show ?case by auto
qed

lemma list_all_deleteById: "list_all P fs \<Longrightarrow> list_all P (deleteById i fs)"
  using set_deleteById [of i fs] by (auto simp: list_all_iff)

lemma inv_delete: "store_inv fs \<Longrightarrow> store_inv (deleteById i fs)"
  by (simp add: store_inv_def one_edge_per_pair_def pending_or_accepted_def
      distinct_map_deleteById list_all_deleteById)

lemma inv_accept:
  "store_inv fs \<Longrightarrow> store_inv (updateById i (\<lambda>g. g\<lparr>status := Accepted, updatedAt := t\<rparr>) fs)"
  by (simp add: store_inv_def one_edge_per_pair_def pending_or_accepted_def
      map_pair_updateById list_all_updateById)

lemma inv_create:
  assumes "store_inv (friendships st)" and "findOne_between (friendships st) a b = None"
  shows "store_inv (friendships (fst (create_friend_request e a b st)))"
proof -
  from assms(2) have "{a, b} \<notin> pair_of ` set (friendships st)"
    by (rule findOne_between_None)
  with assms(1) show ?thesis
    by (auto simp: create_friend_request_def insert_friendship_def store_inv_def
        one_edge_per_pair_def pending_or_accepted_def pair_of_def Let_def)
qed

lemma inv_send_friend_request:
  assumes "store_inv (friendships st)"
  shows "store_inv (friendships (fst (send_friend_request e rid u st)))"
proof (cases "findOne_between (friendships st) u (the rid)")
  case None
  with assms show ?thesis
    by (auto simp: send_friend_request_def inv_create split: option.splits)
next
  case (Some f)
  then have "f \<in> set (friendships st)"
    unfolding findOne_between_def by (auto dest: find_Some_mem)
  with assms have "status f = Pending \<or> status f = Accepted"
    by (auto simp: store_inv_def pending_or_accepted_def list_all_iff)
  with assms Some show ?thesis
    by (auto simp: send_friend_request_def split: option.splits)
qed

lemma inv_accept_friend_request:
  "store_inv (friendships st) \<Longrightarrow> store_inv (friendships (fst (accept_friend_request e i u st)))"
  by (auto simp: accept_friend_request_def inv_accept Let_def split: option.splits)

lemma inv_decline_friend_request:
  "store_inv (friendships st) \<Longrightarrow> store_inv (friendships (fst (decline_friend_request e i u st)))"
  by (auto simp: decline_friend_request_def inv_delete split: option.splits)

lemma inv_remove_friend:
  "store_inv (friendships st) \<Longrightarrow> store_inv (friendships (fst (remove_friend e i u st)))"
  by (auto simp: remove_friend_def inv_delete split: option.splits)

lemma inv_isLoggedIn:
  assumes "\<And>u. store_inv (friendships (fst (route u st)))" and "store_inv (friendships st)"
  shows "store_inv (friendships (fst (isLoggedIn s route st)))"
  using assms by (auto simp: isLoggedIn_def split: option.splits)

lemma inv_serve: "store_inv (friendships st) \<Longrightarrow> store_inv (friendships (fst (serve q st)))"
  by (cases q)
    (simp_all add: inv_isLoggedIn inv_send_friend_request inv_accept_friend_request
      inv_decline_friend_request inv_remove_friend)

lemma inv_serve_all: "store_inv (friendships st) \<Longrightarrow> store_inv (friendships (serve_all qs st))"
  by (induction qs arbitrary: st) (simp_all add: inv_serve)

subsection \<open>A run of the friendship routes\<close>

lemma friend_session_result: "map requester (friendships (serve_all friend_session db_strangers)) = [''b2'']
  \<and> map frecipient (friendships (serve_all friend_session db_strangers)) = [''a1'']
  \<and> map status (friendships (serve_all friend_session db_strangers)) = [Pending]"
  by (simp add: friend_session_def isLoggedIn_def send_friend_request_def
      accept_friend_request_def remove_friend_def create_friend_request_def
      insert_friendship_def findOne_between_def findOne_pending_def findById_def
      db_strangers_def alice_def bob_def env_ok_def Let_def)

section \<open>The claims\<close>

text \<open>
  C1, as amended: for every send-message event naming a sender and a recipient that have no
  accepted friendship edge (a sender messaging themself included), the store is left
  unchanged, so no Message record is persisted, and the handler's only effect is one
  \<^verbatim>\<open>message-error\<close> emitted to the originating connection. The error is
  \<^verbatim>\<open>'You can only message friends'\<close> whenever the three fields are non-empty and the
  friendship lookup resolves.
\<close>

theorem send_message_non_friends:
  assumes "data_senderId d = Some s" and "data_recipientId d = Some r"
    and "\<not> areFriends (friendships st) s r"
  shows "fst (send_message_handler e (Some d) st) = st
    \<and> (\<exists>err. snd (send_message_handler e (Some d) st) = [Emit Socket (MessageError err)])
    \<and> (s \<noteq> [] \<and> r \<noteq> [] \<and> data_content d \<noteq> None \<and> data_content d \<noteq> Some []
          \<and> \<not> rejects e Friendship_findOne
        \<longrightarrow> snd (send_message_handler e (Some d) st)
              = [Emit Socket (MessageError ''You can only message friends'')])"
  using assms
  by (auto simp: send_message_handler_def send_message_body_def split: option.splits)

text \<open>
  The amended claim at a concrete event: two users without an edge, a non-empty content.
\<close>

theorem send_message_non_friends_witness:
  "send_message_handler env_ok (Some hello) db_strangers
     = (db_strangers, [Emit Socket (MessageError ''You can only message friends'')])"
proof -
  have nf: "\<not> areFriends (friendships db_strangers) ''a1'' ''b2''"
    by (simp add: db_strangers_def areFriends_def)
  have "data_senderId hello = Some ''a1''" and "data_recipientId hello = Some ''b2''"
    by (simp_all add: hello_def)
  from send_message_non_friends [OF this nf, of env_ok]
  show ?thesis by (simp add: hello_def env_ok_def prod_eq_iff)
qed

text \<open>
  C1 as stated fails where validation comes first: between the same two users, an empty
  content is answered with \<^verbatim>\<open>'Missing required fields'\<close>, not with the authorization error.
\<close>

theorem send_message_non_friends_counterexample:
  "\<not> areFriends (friendships db_strangers) ''a1'' ''b2''
   \<and> send_message_handler env_ok (Some empty_content) db_strangers
       = (db_strangers, [Emit Socket (MessageError ''Missing required fields'')])"
  by (simp add: send_message_handler_def send_message_body_def db_strangers_def areFriends_def
      empty_content_def)

text \<open>
  C2, as amended: for every send-message event between accepted friends with non-empty
  senderId and recipientId and a content that is non-empty after trimming, when the store
  calls resolve, the handler persists exactly one new Message record (trimmed content,
  messageType text, unread), then publishes it once to the pair channel and once to the
  recipient's personal room, then emits one \<^verbatim>\<open>message-delivered\<close> to the originating
  connection alone, carrying the new message's id and creation time; the effects are these
  four, in this order.
\<close>

theorem send_message_between_friends:
  assumes "data_senderId d = Some s" "data_recipientId d = Some r" "data_content d = Some c"
    and "s \<noteq> []" "r \<noteq> []" "trim c \<noteq> []"
    and "areFriends (friendships st) s r"
    and "\<not> rejects e Friendship_findOne" "\<not> rejects e Message_save" "\<not> rejects e Message_populate"
  shows "\<exists>m. m = \<lparr>mid = next_oid st, sender = s, recipient = r, content = trim c, messageType = Text,
               filePath = None, fileSize = None, fileName = None,
               isRead = False, readAt = None, createdAt = clock e 0\<rparr>
      \<and> messages (fst (send_message_handler e (Some d) st)) = messages st @ [m]
      \<and> users (fst (send_message_handler e (Some d) st)) = users st
      \<and> friendships (fst (send_message_handler e (Some d) st)) = friendships st
      \<and> snd (send_message_handler e (Some d) st) =
          [Saved m,
           Emit (IoTo (chatRoom s r))
             (NewMessage m (populate_username (users st) s) (populate_username (users st) r)),
           Emit (SocketTo r)
             (NewMessage m (populate_username (users st) s) (populate_username (users st) r)),
           Emit Socket (MessageDelivered (mid m) (createdAt m))]"
  by (simp add: send_message_success [OF assms] Let_def)

text \<open>
  The amended claim at a concrete event: the content \<^verbatim>\<open>" hello "\<close> is stored as \<^verbatim>\<open>"hello"\<close>.
\<close>

theorem send_message_between_friends_witness:
  "messages (fst (send_message_handler env_ok (Some hello) db_friends))
     = [\<lparr>mid = 1, sender = ''a1'', recipient = ''b2'', content = ''hello'', messageType = Text,
               filePath = None, fileSize = None, fileName = None,
               isRead = False, readAt = None, createdAt = 1000\<rparr>]
   \<and> length (snd (send_message_handler env_ok (Some hello) db_friends)) = 4
   \<and> last (snd (send_message_handler env_ok (Some hello) db_friends)) = Emit Socket (MessageDelivered 1 1000)"
proof -
  have f: "areFriends (friendships db_friends) ''a1'' ''b2''"
    by (simp add: db_friends_def areFriends_def)
  have t: "trim '' hello '' = ''hello''"
    by (simp add: trim_def is_js_whitespace_def)
  have d: "data_senderId hello = Some ''a1''" "data_recipientId hello = Some ''b2''"
      "data_content hello = Some '' hello ''"
    by (simp_all add: hello_def)
  have r: "\<not> rejects env_ok Friendship_findOne" "\<not> rejects env_ok Message_save"
      "\<not> rejects env_ok Message_populate"
    by (simp_all add: env_ok_def)
  have "''a1'' \<noteq> []" "''b2'' \<noteq> []" "trim '' hello '' \<noteq> []"
    by (simp_all add: t)
  from send_message_between_friends [OF d this f r]
  show ?thesis by (auto simp: t db_friends_def env_ok_def)
qed

text \<open>
  C2 as stated fails for a content of white space only: it is non-empty, so it passes the
  handler's check, but it is empty once trimmed, the schema's required validator rejects
  the save, and the sender gets \<^verbatim>\<open>'Failed to send message'\<close>; nothing is persisted or published.
\<close>

theorem send_message_between_friends_counterexample:
  "areFriends (friendships db_friends) ''a1'' ''b2''
   \<and> send_message_handler env_ok (Some blank) db_friends
       = (db_friends, [Emit Socket (MessageError ''Failed to send message'')])"
  by (simp add: send_message_handler_def send_message_body_def db_friends_def areFriends_def
      env_ok_def blank_def save_message_def validate_message_def new_Message_def trim_def
      is_js_whitespace_def)

text \<open>
  C3: mark-messages-read(A, B) changes exactly the Message records with sender A,
  recipient B and isRead false when the bulk update runs: each of them gets isRead true
  and the update's timestamp as readAt, and every other record stays as it was (a record
  already read keeps its readAt, a record in the opposite direction is untouched; when
  the update is rejected nothing changes). Users and friendships are untouched. A
  message sent from A to B after the update is appended unread, with no readAt.
\<close>

theorem mark_messages_read_frame:
  "length (messages (fst (mark_messages_read_handler e (A, B) st))) = length (messages st)
   \<and> (\<forall>k < length (messages st).
         messages (fst (mark_messages_read_handler e (A, B) st)) ! k =
           (if \<not> rejects e Message_updateMany
               \<and> sender (messages st ! k) = A \<and> recipient (messages st ! k) = B
               \<and> \<not> isRead (messages st ! k)
            then (messages st ! k)\<lparr>isRead := True, readAt := Some (clock e 0)\<rparr>
            else messages st ! k))
   \<and> users (fst (mark_messages_read_handler e (A, B) st)) = users st
   \<and> friendships (fst (mark_messages_read_handler e (A, B) st)) = friendships st
   \<and> (\<forall>e' d c. data_senderId d = Some A \<and> data_recipientId d = Some B \<and> data_content d = Some c
           \<and> A \<noteq> [] \<and> B \<noteq> [] \<and> trim c \<noteq> [] \<and> areFriends (friendships st) A B
           \<and> \<not> rejects e' Friendship_findOne \<and> \<not> rejects e' Message_save
           \<and> \<not> rejects e' Message_populate
         \<longrightarrow> (\<exists>m. messages (fst (send_message_handler e' (Some d)
                       (fst (mark_messages_read_handler e (A, B) st))))
                   = messages (fst (mark_messages_read_handler e (A, B) st)) @ [m]
                 \<and> sender m = A \<and> recipient m = B \<and> isRead m = False \<and> readAt m = None))"
proof -
  let ?st' = "fst (mark_messages_read_handler e (A, B) st)"
  have fr: "friendships ?st' = friendships st" and us: "users ?st' = users st"
    by (simp_all add: mark_messages_read_store)
  have len: "length (messages ?st') = length (messages st)"
    by (simp add: mark_messages_read_store updateMany_read_length)
  have nth: "\<forall>k < length (messages st).
         messages ?st' ! k =
           (if \<not> rejects e Message_updateMany
               \<and> sender (messages st ! k) = A \<and> recipient (messages st ! k) = B
               \<and> \<not> isRead (messages st ! k)
            then (messages st ! k)\<lparr>isRead := True, readAt := Some (clock e 0)\<rparr>
            else messages st ! k)"
    by (simp add: mark_messages_read_store updateMany_read_nth)
  have later: "\<exists>m. messages (fst (send_message_handler e' (Some d) ?st')) = messages ?st' @ [m]
                 \<and> sender m = A \<and> recipient m = B \<and> isRead m = False \<and> readAt m = None"
    if "data_senderId d = Some A" "data_recipientId d = Some B" "data_content d = Some c"
      "A \<noteq> []" "B \<noteq> []" "trim c \<noteq> []" "areFriends (friendships st) A B"
      "\<not> rejects e' Friendship_findOne" "\<not> rejects e' Message_save"
      "\<not> rejects e' Message_populate" for e' d c
  proof -
    from that(7) have "areFriends (friendships ?st') A B" by (simp only: fr)
    from send_message_success [OF that(1-6) this that(8-10)]
    show ?thesis by (simp add: Let_def)
  qed
  from len nth us fr later show ?thesis by blast
qed

text \<open>
  C3 on a store of three messages: an unread one from A to B, an unread one from B to A,
  and one from A to B that was read at time 5.
\<close>

theorem mark_messages_read_frame_witness:
  "length (messages (fst (mark_messages_read_handler env_ok (''a1'', ''b2'') db_chat))) = 3
   \<and> messages (fst (mark_messages_read_handler env_ok (''a1'', ''b2'') db_chat)) ! 0
       = (messages db_chat ! 0)\<lparr>isRead := True, readAt := Some 1000\<rparr>
   \<and> messages (fst (mark_messages_read_handler env_ok (''a1'', ''b2'') db_chat)) ! 1
       = messages db_chat ! 1
   \<and> messages (fst (mark_messages_read_handler env_ok (''a1'', ''b2'') db_chat)) ! 2
       = messages db_chat ! 2
   \<and> (\<exists>m. messages (fst (send_message_handler env_ok (Some hello)
              (fst (mark_messages_read_handler env_ok (''a1'', ''b2'') db_chat))))
            = messages (fst (mark_messages_read_handler env_ok (''a1'', ''b2'') db_chat)) @ [m]
          \<and> isRead m = False \<and> readAt m = None)"
proof -
  note th = mark_messages_read_frame [of env_ok "''a1''" "''b2''" db_chat]
  note len = th [THEN conjunct1]
  note nth = th [THEN conjunct2, THEN conjunct1, rule_format]
  note later = th [THEN conjunct2, THEN conjunct2, THEN conjunct2, THEN conjunct2, rule_format,
      of hello "'' hello ''" env_ok]
  have l: "length (messages db_chat) = 3" by (simp add: db_chat_def)
  have t: "trim '' hello '' = ''hello''"
    by (simp add: trim_def is_js_whitespace_def)
  have f: "areFriends (friendships db_chat) ''a1'' ''b2''"
    by (simp add: db_chat_def areFriends_def)
  have 0: "messages (fst (mark_messages_read_handler env_ok (''a1'', ''b2'') db_chat)) ! 0
       = (messages db_chat ! 0)\<lparr>isRead := True, readAt := Some 1000\<rparr>"
    using nth [of 0] by (simp add: db_chat_def env_ok_def)
  have 1: "messages (fst (mark_messages_read_handler env_ok (''a1'', ''b2'') db_chat)) ! 1
       = messages db_chat ! 1"
    using nth [of 1] by (simp add: db_chat_def env_ok_def)
  have 2: "messages (fst (mark_messages_read_handler env_ok (''a1'', ''b2'') db_chat)) ! 2
       = messages db_chat ! 2"
    using nth [of 2] by (simp add: db_chat_def env_ok_def)
  have 3: "\<exists>m. messages (fst (send_message_handler env_ok (Some hello)
              (fst (mark_messages_read_handler env_ok (''a1'', ''b2'') db_chat))))
            = messages (fst (mark_messages_read_handler env_ok (''a1'', ''b2'') db_chat)) @ [m]
          \<and> isRead m = False \<and> readAt m = None"
    using later f by (auto simp: hello_def env_ok_def t)
  from len l 0 1 2 3 show ?thesis by simp
qed

text \<open>
  C4: whatever the payload, the store and the failures of the store calls, the effects of
  the send-message handler contain exactly one terminal outcome for the originating
  connection (a \<^verbatim>\<open>message-delivered\<close> or a \<^verbatim>\<open>message-error\<close> emitted with
  \<^verbatim>\<open>socket.emit\<close>), and it is the handler's last effect. Every exception of the body is
  caught, so the handler always returns.
\<close>

theorem send_message_one_terminal_outcome:
  "length (filter terminal_outcome (snd (send_message_handler e data st))) = 1
   \<and> terminal_outcome (last (snd (send_message_handler e data st)))"
  by (auto simp: send_message_handler_def send_message_body_def terminal_outcome_def
      save_message_def Let_def split: option.splits)

text \<open>
  C4 at a missing payload, at a content the schema rejects, and on the success path.
\<close>

theorem send_message_one_terminal_outcome_witness:
  "length (filter terminal_outcome (snd (send_message_handler env_ok None db_friends))) = 1
   \<and> length (filter terminal_outcome (snd (send_message_handler env_ok (Some blank) db_friends))) = 1
   \<and> length (filter terminal_outcome (snd (send_message_handler env_ok (Some hello) db_friends))) = 1"
  using send_message_one_terminal_outcome [of env_ok None db_friends]
    send_message_one_terminal_outcome [of env_ok "Some blank" db_friends]
    send_message_one_terminal_outcome [of env_ok "Some hello" db_friends]
  by simp

text \<open>
  C5, as amended: for user ids that do not contain the separator \<^verbatim>\<open>-\<close> (such as the
  hexadecimal ids the application uses), the channel identifier determines the unordered
  pair: equal identifiers come from equal pairs. In particular
  \<open>pairChannel(a, b) \<noteq> pairChannel(a, c)\<close> whenever \<open>b \<noteq> c\<close>.
\<close>

theorem chatRoom_injective_without_separator:
  assumes "CHR ''-'' \<notin> set a" "CHR ''-'' \<notin> set b" "CHR ''-'' \<notin> set c" "CHR ''-'' \<notin> set d"
    and eq: "chatRoom a b = chatRoom c d"
  shows "{a, b} = {c, d}"
proof -
  have 1: "CHR ''-'' \<notin> set (min a b)" using assms(1,2) by (simp add: min_def)
  have 2: "CHR ''-'' \<notin> set (min c d)" using assms(3,4) by (simp add: min_def)
  from eq have "min a b @ CHR ''-'' # max a b = min c d @ CHR ''-'' # max c d"
    by (simp only: chatRoom_min_max)
  from split_at_separator [OF 1 2 this] have "min a b = min c d" "max a b = max c d"
    by simp_all
  then have "{min a b, max a b} = {min c d, max c d}" by simp
  then show ?thesis by (simp only: min_max_pair)
qed

text \<open>
  The amended claim at two ids without separator.
\<close>

theorem chatRoom_injective_without_separator_witness:
  "chatRoom ''a1'' ''b2'' = chatRoom ''b2'' ''a1'' \<and> {''a1'', ''b2''} = {''b2'', ''a1''}"
proof -
  have eq: "chatRoom ''a1'' ''b2'' = chatRoom ''b2'' ''a1''"
    by (simp add: chatRoom_unfold)
  have "CHR ''-'' \<notin> set ''a1''" "CHR ''-'' \<notin> set ''b2''" by simp_all
  from chatRoom_injective_without_separator [OF this this(2) this(1) eq] eq
  show ?thesis by simp
qed

text \<open>
  C5 as stated, for all strings, fails: with \<open>a\<close> = \<^verbatim>\<open>!--!\<close>, \<open>b\<close> = \<^verbatim>\<open>-!\<close> and
  \<open>c\<close> = \<^verbatim>\<open>!-\<close>, both pairs get the identifier \<^verbatim>\<open>!--!--!\<close> although \<open>b \<noteq> c\<close>.
\<close>

theorem chatRoom_collision_counterexample:
  "chatRoom ''!--!'' ''-!'' = chatRoom ''!--!'' ''!-'' \<and> ''-!'' \<noteq> ''!-''"
  by (simp add: chatRoom_unfold)

text \<open>
  C6: the channel identifier does not depend on the order of its two arguments:
  \<open>pairChannel(a, b) = pairChannel(b, a)\<close> for all strings, so both participants compute
  the same identifier whoever initiates. (\<open>chatRoom\<close> is a function of its two arguments
  alone.)
\<close>

theorem chatRoom_symmetric: "chatRoom a b = chatRoom b a"
  by (auto simp: chatRoom_unfold)

text \<open>
  C6 at two concrete ids.
\<close>

theorem chatRoom_symmetric_witness: "chatRoom ''a1'' ''b2'' = chatRoom ''b2'' ''a1''"
  using chatRoom_symmetric [of "''a1''" "''b2''"] by simp

text \<open>
  C7, as amended: the transport disconnect is gated on an identity having been bound to
  the connection (with none bound it does nothing); the explicit user-disconnected event
  is gated on its userId argument being non-empty, on any connection \<open>c'\<close>, bound or not.
  When the argument is the bound identity's user id, both paths produce the same state
  and the same effects: unless the update is rejected, the user is marked offline
  (isOnline false, lastSeen stamped, socketId cleared) and one user-status-update is
  broadcast.
\<close>

theorem disconnect_paths_agree:
  "disconnect_handler e (c\<lparr>currentUser := None\<rparr>) st = (st, [])
   \<and> user_disconnected_handler e c' None st = (st, [])
   \<and> user_disconnected_handler e c' (Some []) st = (st, [])
   \<and> user_disconnected_handler e c' (Some i) st
       = disconnect_handler e (c\<lparr>currentUser := Some (i, n)\<rparr>) st
   \<and> (i \<noteq> [] \<and> \<not> rejects e User_findByIdAndUpdate
        \<longrightarrow> findById i (users (fst (disconnect_handler e (c\<lparr>currentUser := Some (i, n)\<rparr>) st)))
              = map_option (\<lambda>u. u\<lparr>isOnline := False, lastSeen := clock e 0, socketId := None\<rparr>)
                  (findById i (users st))
          \<and> snd (disconnect_handler e (c\<lparr>currentUser := Some (i, n)\<rparr>) st)
              = [Emit SocketBroadcast (UserStatusUpdate i False (clock e 1))])"
  by (auto simp: disconnect_handler_def user_disconnected_handler_def findById_update)

text \<open>
  The amended claim on a connection bound to a stored user.
\<close>

theorem disconnect_paths_agree_witness:
  "user_disconnected_handler env_ok (new_connection ''s1'') (Some ''a1'') db_strangers
     = disconnect_handler env_ok \<lparr>socket_id = ''s1'', currentUser = Some (''a1'', ''alice'')\<rparr> db_strangers
   \<and> findById ''a1'' (users (fst (disconnect_handler env_ok
         \<lparr>socket_id = ''s1'', currentUser = Some (''a1'', ''alice'')\<rparr> db_strangers)))
     = Some (alice\<lparr>isOnline := False, lastSeen := 1000, socketId := None\<rparr>)
   \<and> snd (disconnect_handler env_ok
         \<lparr>socket_id = ''s1'', currentUser = Some (''a1'', ''alice'')\<rparr> db_strangers)
     = [Emit SocketBroadcast (UserStatusUpdate ''a1'' False 1001)]"
  using disconnect_paths_agree [of env_ok "new_connection ''s1''" db_strangers
      "new_connection ''s1''" "''a1''" "''alice''"]
  by (simp add: env_ok_def db_strangers_def findById_def alice_def new_connection_def)

text \<open>
  C7 as stated fails: on a connection that never bound an identity, the transport
  disconnect does nothing, but user-disconnected with a user id marks that user offline
  and broadcasts.
\<close>

theorem user_disconnected_unbound_counterexample:
  "currentUser (new_connection ''s9'') = None
   \<and> disconnect_handler env_ok (new_connection ''s9'') db_strangers = (db_strangers, [])
   \<and> users (fst (user_disconnected_handler env_ok (new_connection ''s9'') (Some ''a1'') db_strangers))
       = [alice\<lparr>isOnline := False, lastSeen := 1000, socketId := None\<rparr>, bob]
   \<and> snd (user_disconnected_handler env_ok (new_connection ''s9'') (Some ''a1'') db_strangers)
       = [Emit SocketBroadcast (UserStatusUpdate ''a1'' False 1001)]"
  by (simp add: disconnect_handler_def user_disconnected_handler_def new_connection_def
      env_ok_def db_strangers_def alice_def bob_def)

text \<open>
  C8: a transport disconnect on a connection with no identity bound leaves the store as
  it is (no user record is updated) and has no effect (no user-status-update).
\<close>

theorem disconnect_unbound_no_effect:
  "currentUser c = None \<Longrightarrow> disconnect_handler e c st = (st, [])"
  by (simp add: disconnect_handler_def)

text \<open>
  C8 on a connection that was just opened.
\<close>

theorem disconnect_unbound_no_effect_witness:
  "disconnect_handler env_ok (new_connection ''s9'') db_friends = (db_friends, [])"
proof -
  have "currentUser (new_connection ''s9'') = None"
    by (simp add: new_connection_def)
  then show ?thesis by (rule disconnect_unbound_no_effect)
qed

text \<open>
  C9, as amended: starting from a friendship collection with at most one edge per
  unordered pair of users and only pending or accepted edges (the empty collection is
  one), every sequence of send-request, accept, decline and remove requests, served one
  after the other, leaves at most one edge per unordered pair; no two stored edges are
  each other's reverse. The routes obtain this by looking an edge up in both
  orientations before inserting, not by normalising the pair: an edge is stored as
  (requester, recipient).
\<close>

theorem one_edge_per_pair_preserved:
  assumes "one_edge_per_pair (friendships st)" and "pending_or_accepted (friendships st)"
  shows "one_edge_per_pair (friendships (serve_all qs st))
     \<and> (\<forall>f \<in> set (friendships (serve_all qs st)). \<forall>g \<in> set (friendships (serve_all qs st)).
          requester f = frecipient g \<and> frecipient f = requester g \<longrightarrow> f = g)"
proof -
  let ?fs = "friendships (serve_all qs st)"
  from assms have "store_inv (friendships st)"
    by (simp add: store_inv_def)
  then have "store_inv ?fs"
    by (rule inv_serve_all)
  then have d: "distinct (map pair_of ?fs)"
    by (simp add: store_inv_def one_edge_per_pair_def)
  then have "inj_on pair_of (set ?fs)"
    by (simp add: distinct_map)
  moreover have "pair_of f = pair_of g"
    if "requester f = frecipient g \<and> frecipient f = requester g" for f g
    using that by (auto simp: pair_of_def)
  ultimately have "\<forall>f \<in> set ?fs. \<forall>g \<in> set ?fs.
          requester f = frecipient g \<and> frecipient f = requester g \<longrightarrow> f = g"
    by (blast dest: inj_onD)
  with d show ?thesis by (simp add: one_edge_per_pair_def)
qed

text \<open>
  The amended claim on a run of six requests from the empty collection.
\<close>

theorem one_edge_per_pair_preserved_witness:
  "one_edge_per_pair (friendships (serve_all friend_session db_strangers))
   \<and> map requester (friendships (serve_all friend_session db_strangers)) = [''b2'']
   \<and> map frecipient (friendships (serve_all friend_session db_strangers)) = [''a1'']"
proof -
  have "one_edge_per_pair (friendships db_strangers)" "pending_or_accepted (friendships db_strangers)"
    by (simp_all add: db_strangers_def one_edge_per_pair_def pending_or_accepted_def)
  from one_edge_per_pair_preserved [OF this, of friend_session] friend_session_result
  show ?thesis by simp
qed

text \<open>
  C9 as stated fails in its mechanism: the pair is not put into a canonical order before
  the insert. The same two users are stored as (b2, a1) when b2 asks and as (a1, b2) when
  a1 asks.
\<close>

theorem friendship_not_normalized_counterexample:
  "map requester (friendships (fst (serve (Request env_ok (Some ''b2'') (Some ''a1'')) db_strangers))) = [''b2'']
  \<and> map frecipient (friendships (fst (serve (Request env_ok (Some ''b2'') (Some ''a1'')) db_strangers))) = [''a1'']
  \<and> map requester (friendships (fst (serve (Request env_ok (Some ''a1'') (Some ''b2'')) db_strangers))) = [''a1'']
  \<and> map frecipient (friendships (fst (serve (Request env_ok (Some ''a1'') (Some ''b2'')) db_strangers))) = [''b2'']"
  by (simp add: isLoggedIn_def send_friend_request_def create_friend_request_def insert_friendship_def
      findOne_between_def findById_def db_strangers_def alice_def bob_def env_ok_def)

text \<open>
  C10: user-inactive(userId) changes at most the user's lastSeen: isOnline, the name, the
  id and socketId of every user are as before, other users and the other collections are
  untouched. When the update resolves, lastSeen is stamped and the broadcast
  user-status-update reports isOnline false. So for a user stored as online, the stored
  and the broadcast presence disagree after the event.
\<close>

theorem user_inactive_keeps_isOnline:
  "map isOnline (users (fst (user_inactive_handler e i st))) = map isOnline (users st)
    \<and> map uid (users (fst (user_inactive_handler e i st))) = map uid (users st)
    \<and> map username (users (fst (user_inactive_handler e i st))) = map username (users st)
    \<and> map socketId (users (fst (user_inactive_handler e i st))) = map socketId (users st)
    \<and> (\<forall>j. j \<noteq> i \<longrightarrow> findById j (users (fst (user_inactive_handler e i st))) = findById j (users st))
    \<and> friendships (fst (user_inactive_handler e i st)) = friendships st
    \<and> messages (fst (user_inactive_handler e i st)) = messages st
    \<and> (\<not> rejects e User_findByIdAndUpdate \<longrightarrow>
         findById i (users (fst (user_inactive_handler e i st)))
           = map_option (\<lambda>u. u\<lparr>lastSeen := clock e 0\<rparr>) (findById i (users st))
         \<and> snd (user_inactive_handler e i st)
           = [Emit SocketBroadcast (UserStatusUpdate i False (clock e 1))])"
  by (simp add: user_inactive_handler_def map_update_preserved findById_update)

text \<open>
  C10 for a user stored as online: still online in the store, offline in the broadcast.
\<close>

theorem user_inactive_keeps_isOnline_witness:
  "map_option isOnline (findById ''a1'' (users db_friends)) = Some True
   \<and> map_option isOnline (findById ''a1'' (users (fst (user_inactive_handler env_ok ''a1'' db_friends))))
     = Some True
   \<and> map_option lastSeen (findById ''a1'' (users (fst (user_inactive_handler env_ok ''a1'' db_friends))))
     = Some 1000
   \<and> snd (user_inactive_handler env_ok ''a1'' db_friends)
     = [Emit SocketBroadcast (UserStatusUpdate ''a1'' False 1001)]"
  using user_inactive_keeps_isOnline [of env_ok "''a1''" db_friends]
  by (simp add: env_ok_def db_friends_def findById_def alice_def)

end
